theory Spec2Isabelle
  imports Main "HOL-Library.Sublist"
begin

section \<open>JSON values\<close>

text \<open>
  The resource handlers of \<^verbatim>\<open>internal/services/azurerm_generic_resource.go\<close> work on
  values of Go's \<^verbatim>\<open>interface{}\<close> as \<^verbatim>\<open>encoding/json\<close> produces them: \<^verbatim>\<open>nil\<close>, booleans,
  numbers, strings, slices and \<^verbatim>\<open>map[string]interface{}\<close>. \<open>JNull\<close> is Go's \<^verbatim>\<open>nil\<close>
  (JSON \<^verbatim>\<open>null\<close> unmarshals to it). An object is an association list; a Go map has
  no repeated key, which \<open>wf_json\<close> states. No handler inspects a number, so a number
  is carried as an integer literal.
\<close>

datatype json =
    JNull
  | JBool bool
  | JNumber int
  | JString string
  | JArray "json list"
  | JObject "(string \<times> json) list"

fun wf_json :: "json \<Rightarrow> bool" where
  "wf_json (JArray xs) = list_all wf_json xs"
| "wf_json (JObject kvs) = (distinct (map fst kvs) \<and> list_all (\<lambda>(k, v). wf_json v) kvs)"
| "wf_json _ = True"

fun is_object :: "json \<Rightarrow> bool" where
  "is_object (JObject kvs) = True"
| "is_object _ = False"

fun object_fields :: "json \<Rightarrow> (string \<times> json) list" where
  "object_fields (JObject kvs) = kvs"
| "object_fields _ = []"

section \<open>Package utils (JsonMerge)\<close>

text \<open>
  Modelled from the spec: \<^verbatim>\<open>utils.GetMergedJson\<close> is called by the handlers but its file is
  not among the sources. Section 4.2, Merge(base, overlay): a nil base yields the overlay
  and a nil overlay yields the base; on two objects, a key of both is merged recursively
  if both values are objects and is otherwise replaced by the overlay's value (arrays
  wholesale); on anything else the overlay wins.
\<close>

fun GetMergedJson :: "json \<Rightarrow> json \<Rightarrow> json" where
  "GetMergedJson old JNull = old"
| "GetMergedJson JNull new = new"
| "GetMergedJson (JObject b) (JObject ov) =
     JObject
       (map (\<lambda>(k, v). (k, case map_of ov k of
                             None \<Rightarrow> v
                           | Some w \<Rightarrow> if is_object v \<and> is_object w then GetMergedJson v w else w)) b
        @ filter (\<lambda>(k, w). map_of b k = None) ov)"
| "GetMergedJson old new = new"

text \<open>
  Modelled from the spec: \<^verbatim>\<open>utils.GetUpdatedJson\<close> is not among the sources. Section 4.3,
  reconcile-on-read: for each key of the desired body, the remote's value if the remote
  has the key (by the same rule when both values are objects), else the desired value;
  keys of the remote alone are dropped. Where the two are not both objects the remote's
  value is taken.
\<close>

fun GetUpdatedJson :: "json \<Rightarrow> json \<Rightarrow> json" where
  "GetUpdatedJson (JObject d) (JObject r) =
     JObject (map (\<lambda>(k, v). (k, case map_of r k of
                                  None \<Rightarrow> v
                                | Some w \<Rightarrow> GetUpdatedJson v w)) d)"
| "GetUpdatedJson old new = new"

text \<open>
  Modelled from the spec: \<^verbatim>\<open>utils.GetIgnoredJson\<close> is not among the sources. Section 4.2,
  StripKeys(doc, keys): removes the named top-level keys.
\<close>

fun GetIgnoredJson :: "json \<Rightarrow> string list \<Rightarrow> json" where
  "GetIgnoredJson (JObject kvs) ignored = JObject (filter (\<lambda>(k, v). k \<notin> set ignored) kvs)"
| "GetIgnoredJson doc ignored = doc"

subsection \<open>Paths\<close>

text \<open>
  Modelled from the spec: \<^verbatim>\<open>utils.ExtractObject\<close> is not among the sources. Section 4.2,
  ExtractPath(doc, path): the path is a sequence of keys separated by \<^verbatim>\<open>.\<close>, a key
  optionally followed by bracketed numeric indices; the result is absent (Go's \<^verbatim>\<open>nil\<close>)
  if a segment is missing or meets a value of the wrong kind. A path that is not of this
  form resolves to nothing.
\<close>

datatype segment = Key string | Index nat

fun split_dots :: "string \<Rightarrow> string list" where
  "split_dots [] = [[]]"
| "split_dots (c # cs) =
     (if c = CHR ''.'' then [] # split_dots cs
      else (case split_dots cs of
              [] \<Rightarrow> [[c]]
            | w # ws \<Rightarrow> (c # w) # ws))"

definition is_digit :: "char \<Rightarrow> bool" where
  "is_digit c = (c \<in> set ''0123456789'')"

definition digit_val :: "char \<Rightarrow> nat" where
  "digit_val c = of_char c - 48"

definition digits_to_nat :: "string \<Rightarrow> nat" where
  "digits_to_nat ds = foldl (\<lambda>n c. 10 * n + digit_val c) 0 ds"

function parse_indices :: "string \<Rightarrow> nat list option" where
  "parse_indices [] = Some []"
| "parse_indices (c # cs) =
     (if c = CHR ''[''
      then (let ds = takeWhile is_digit cs; rest = dropWhile is_digit cs
            in if ds = [] then None
               else (case rest of
                       [] \<Rightarrow> None
                     | r # rest' \<Rightarrow>
                         if r = CHR '']''
                         then map_option (\<lambda>ns. digits_to_nat ds # ns) (parse_indices rest')
                         else None))
      else None)"
  by pat_completeness auto
termination
proof (relation "measure length")
  show "wf (measure length)" by simp
next
  fix c :: char and cs ds rest :: string and r :: char and rest' :: string
  assume "rest = dropWhile is_digit cs" and "rest = r # rest'"
  then have "length (r # rest') \<le> length cs"
    by (metis length_dropWhile_le)
  then show "(rest', c # cs) \<in> measure length" by simp
qed

definition parse_component :: "string \<Rightarrow> segment list option" where
  "parse_component piece =
     (let key = takeWhile (\<lambda>c. c \<noteq> CHR ''['') piece;
          idx = dropWhile (\<lambda>c. c \<noteq> CHR ''['') piece
      in case parse_indices idx of
           None \<Rightarrow> None
         | Some ns \<Rightarrow> Some ((if key = [] \<and> ns \<noteq> [] then [] else [Key key]) @ map Index ns))"

fun parse_components :: "string list \<Rightarrow> segment list option" where
  "parse_components [] = Some []"
| "parse_components (piece # pieces) =
     (case parse_component piece of
        None \<Rightarrow> None
      | Some ss \<Rightarrow> map_option (\<lambda>ts. ss @ ts) (parse_components pieces))"

definition parse_path :: "string \<Rightarrow> segment list option" where
  "parse_path path = parse_components (split_dots path)"

fun resolve :: "json \<Rightarrow> segment list \<Rightarrow> json" where
  "resolve doc [] = doc"
| "resolve (JObject kvs) (Key k # ss) =
     (case map_of kvs k of None \<Rightarrow> JNull | Some v \<Rightarrow> resolve v ss)"
| "resolve (JArray xs) (Index n # ss) =
     (if n < length xs then resolve (xs ! n) ss else JNull)"
| "resolve doc (s # ss) = JNull"

definition ExtractObject :: "json \<Rightarrow> string \<Rightarrow> json" where
  "ExtractObject doc path =
     (case parse_path path of None \<Rightarrow> JNull | Some ss \<Rightarrow> resolve doc ss)"




section \<open>Package parse (ResourceIdentifier)\<close>

record ResourceId =
  Url :: string
  ApiVersion :: string

text \<open>
  Modelled from the spec: \<^verbatim>\<open>parse.NewResourceID\<close>, the method \<^verbatim>\<open>ID\<close> and
  \<^verbatim>\<open>parse.ResourceID\<close> are not among the sources. Section 4.1: New constructs the pair
  from the raw inputs; Encode writes both fields around a reserved separator; Decode
  splits at the separator and fails with MalformedIdentifier if the separator is missing
  or either field is empty after the split. The spec leaves the separator open, so it is
  a parameter here.
\<close>

definition NewResourceID :: "string \<Rightarrow> string \<Rightarrow> ResourceId" where
  "NewResourceID u v = \<lparr>Url = u, ApiVersion = v\<rparr>"

definition ID :: "char \<Rightarrow> ResourceId \<Rightarrow> string" where
  "ID sep rid = Url rid @ [sep] @ ApiVersion rid"

section \<open>Errors\<close>

text \<open>
  Every \<^verbatim>\<open>error\<close> a handler returns, by the place that makes it: \<open>Errorf\<close> is
  \<^verbatim>\<open>fmt.Errorf("<operation> %q: %+v", id, err)\<close> with the operation's words, the
  identifier and the remote client's error.
\<close>

datatype error =
    MalformedIdentifier
  | JsonSyntaxError
  | JsonMarshalError
  | ExpandIdentityError string
  | ImportAsExistsError string string
  | Errorf string ResourceId string

definition ResourceID :: "char \<Rightarrow> string \<Rightarrow> error + ResourceId" where
  "ResourceID sep input =
     (if sep \<notin> set input then Inl MalformedIdentifier
      else (let u = takeWhile (\<lambda>c. c \<noteq> sep) input;
                v = tl (dropWhile (\<lambda>c. c \<noteq> sep) input)
            in if u = [] \<or> v = [] then Inl MalformedIdentifier
               else Inr \<lparr>Url = u, ApiVersion = v\<rparr>))"

section \<open>Package azure (FieldProjector)\<close>

text \<open>
  Modelled from the spec: \<^verbatim>\<open>azure.ExpandTags\<close> and \<^verbatim>\<open>azure.ExpandLocation\<close> are not
  among the sources. Section 4.4: TagsFragment is the object with the one key
  \<^verbatim>\<open>tags\<close>, or absent if the tags are empty; LocationFragment is the object with the one
  key \<^verbatim>\<open>location\<close>, or absent.
\<close>

definition ExpandTags :: "(string \<times> string) list \<Rightarrow> json" where
  "ExpandTags ts =
     (if ts = [] then JNull
      else JObject [(''tags'', JObject (map (\<lambda>(k, v). (k, JString v)) ts))])"

definition ExpandLocation :: "string \<Rightarrow> json" where
  "ExpandLocation loc =
     (if loc = [] then JNull else JObject [(''location'', JString loc)])"

text \<open>
  Modelled from the spec: the schema of the identity block (\<^verbatim>\<open>azure.SchemaIdentity\<close>) is
  not among the sources. Section 3: a type and the user-assigned identity ids.
\<close>

record identity_block =
  identity_type :: string
  identity_ids :: "string list"

section \<open>The collaborators of the handlers\<close>

text \<open>
  A remote call returns Go's triple: the body, the response's status code and the
  error (\<open>None\<close> is \<^verbatim>\<open>nil\<close>). The remote side has a state of its own, of any type
  \<open>'r\<close>, which each call may change.
\<close>

type_synonym response = "json \<times> nat \<times> string option"

text \<open>
  What the handlers call and the sources do not define: the methods of
  \<^verbatim>\<open>clients.ResourceClient\<close>, \<^verbatim>\<open>encoding/json\<close> (a text that does not parse gives
  \<open>None\<close>, a value that cannot be written gives \<open>None\<close>), \<^verbatim>\<open>utils.GetId\<close>,
  \<^verbatim>\<open>azure.ExpandIdentity\<close> (\<open>Inl\<close> is its error), the three \<^verbatim>\<open>azure.Flatten\<close> functions,
  \<^verbatim>\<open>getUnsupportedProperties\<close> and the separator of the identifier's encoding.
\<close>

record 'r env =
  client_Get :: "'r \<Rightarrow> string \<Rightarrow> string \<Rightarrow> response \<times> 'r"
  client_CreateUpdate :: "'r \<Rightarrow> string \<Rightarrow> string \<Rightarrow> json \<Rightarrow> string \<Rightarrow> response \<times> 'r"
  client_Delete :: "'r \<Rightarrow> string \<Rightarrow> string \<Rightarrow> response \<times> 'r"
  json_Unmarshal :: "string \<Rightarrow> json option"
  json_Marshal :: "json \<Rightarrow> string option"
  utils_GetId :: "json \<Rightarrow> string"
  azure_ExpandIdentity :: "identity_block list \<Rightarrow> string + json"
  azure_FlattenTags :: "json \<Rightarrow> (string \<times> string) list"
  azure_FlattenLocation :: "json \<Rightarrow> string"
  azure_FlattenIdentity :: "json \<Rightarrow> identity_block list"
  getUnsupportedProperties :: "string list"
  id_separator :: char

text \<open>
  The remote calls issued so far are recorded beside the remote state, each with the
  error it returned; the record is not part of the program, it lets a theorem say which
  calls a handler made.
\<close>

datatype call =
    GetCall string string
  | CreateUpdateCall string string json string
  | DeleteCall string string

record 'r world =
  remote :: 'r
  calls :: "(call \<times> string option) list"

definition do_Get :: "'r env \<Rightarrow> 'r world \<Rightarrow> string \<Rightarrow> string \<Rightarrow> response \<times> 'r world" where
  "do_Get e w u v =
     (case client_Get e (remote w) u v of
        ((b, st, err), r') \<Rightarrow>
          ((b, st, err), \<lparr>remote = r', calls = calls w @ [(GetCall u v, err)]\<rparr>))"

definition do_CreateUpdate ::
  "'r env \<Rightarrow> 'r world \<Rightarrow> string \<Rightarrow> string \<Rightarrow> json \<Rightarrow> string \<Rightarrow> response \<times> 'r world" where
  "do_CreateUpdate e w u v requestBody m =
     (case client_CreateUpdate e (remote w) u v requestBody m of
        ((b, st, err), r') \<Rightarrow>
          ((b, st, err),
           \<lparr>remote = r', calls = calls w @ [(CreateUpdateCall u v requestBody m, err)]\<rparr>))"

definition do_Delete :: "'r env \<Rightarrow> 'r world \<Rightarrow> string \<Rightarrow> string \<Rightarrow> response \<times> 'r world" where
  "do_Delete e w u v =
     (case client_Delete e (remote w) u v of
        ((b, st, err), r') \<Rightarrow>
          ((b, st, err), \<lparr>remote = r', calls = calls w @ [(DeleteCall u v, err)]\<rparr>))"

section \<open>The resource's data\<close>

text \<open>
  \<^verbatim>\<open>schema.ResourceData\<close> with the fields of the schema (lines 39 to 100), the stored
  identifier (\<^verbatim>\<open>d.Id()\<close>, \<^verbatim>\<open>d.SetId\<close>) and the flag \<^verbatim>\<open>d.IsNewResource()\<close>.
  \<^verbatim>\<open>d.GetOk\<close> reports a field as set when its value is not the zero value of its type.
  The fields \<^verbatim>\<open>d_Id\<close> and \<^verbatim>\<open>d_output\<close> are the identifier and the attribute
  \<^verbatim>\<open>output\<close>, renamed where the plain name is taken.
\<close>

record resource_data =
  d_Id :: string
  IsNewResource :: bool
  url :: string
  api_version :: string
  location :: string
  identity :: "identity_block list"
  body :: string
  create_method :: string
  update_method :: string
  paths :: "string list"
  d_output :: string
  tags :: "(string \<times> string) list"

type_synonym 'r outcome = "error option \<times> resource_data \<times> 'r world"

section \<open>Read\<close>

text \<open>
  Lines 219 to 233: the loop over the paths, from the output so far. A path whose part
  is \<^verbatim>\<open>nil\<close> is skipped.
\<close>

fun collect_output :: "json \<Rightarrow> json \<Rightarrow> string list \<Rightarrow> json" where
  "collect_output responseBody out [] = out"
| "collect_output responseBody out (path # ps) =
     (let part = ExtractObject responseBody path
      in if part = JNull then collect_output responseBody out ps
         else collect_output responseBody (GetMergedJson out part) ps)"

definition output_document :: "json \<Rightarrow> string list \<Rightarrow> json" where
  "output_document responseBody ps =
     (let out = (if length ps \<noteq> 0 then collect_output responseBody (JObject []) ps else JNull)
      in if out = JNull then JObject [] else out)"

text \<open>
  Lines 199 to 209: the body of the state is parsed; if it does not parse and is the
  empty text (the import case), the request body defaults to the response body without
  the unsupported properties; if it does not parse otherwise, the error is returned.
\<close>

definition read_requestBody :: "'r env \<Rightarrow> string \<Rightarrow> json \<Rightarrow> error + json" where
  "read_requestBody e bodyJson responseBody =
     (case json_Unmarshal e bodyJson of
        Some requestBody \<Rightarrow> Inr requestBody
      | None \<Rightarrow>
          if length bodyJson = 0
          then Inr (GetIgnoredJson responseBody (getUnsupportedProperties e))
          else Inl JsonSyntaxError)"

definition resourceAzureGenericResourceRead ::
  "'r env \<Rightarrow> resource_data \<Rightarrow> 'r world \<Rightarrow> 'r outcome" where
  "resourceAzureGenericResourceRead e d w =
     (case ResourceID (id_separator e) (d_Id d) of
        Inl err \<Rightarrow> (Some err, d, w)
      | Inr rid \<Rightarrow>
          (case do_Get e w (Url rid) (ApiVersion rid) of
             ((responseBody, status, err), w1) \<Rightarrow>
               (case err of
                  Some x \<Rightarrow>
                    if status = 404 then (None, d\<lparr>d_Id := []\<rparr>, w1)
                    else (Some (Errorf ''reading'' rid x), d, w1)
                | None \<Rightarrow>
                    (let d1 = d\<lparr>url := Url rid, api_version := ApiVersion rid\<rparr>
                     in case read_requestBody e (body d1) responseBody of
                          Inl err' \<Rightarrow> (Some err', d1, w1)
                        | Inr requestBody \<Rightarrow>
                            (case json_Marshal e (GetUpdatedJson requestBody responseBody) of
                               None \<Rightarrow> (Some JsonMarshalError, d1, w1)
                             | Some data \<Rightarrow>
                                 (let d2 = d1\<lparr>body := data,
                                              tags := azure_FlattenTags e responseBody,
                                              location := azure_FlattenLocation e responseBody,
                                              identity := azure_FlattenIdentity e responseBody\<rparr>;
                                      outputJson =
                                        (case json_Marshal e (output_document responseBody (paths d2)) of
                                           None \<Rightarrow> []
                                         | Some t \<Rightarrow> t)
                                  in (None, d2\<lparr>d_output := outputJson\<rparr>, w1)))))))"

section \<open>Create and update\<close>

text \<open>
  Lines 121 to 131: for a new resource, the existing object is fetched first; an error
  of the Get other than 404 ends the handler, and so does a non-empty id of the body
  that came back.
\<close>

definition check_existing ::
  "'r env \<Rightarrow> resource_data \<Rightarrow> 'r world \<Rightarrow> ResourceId \<Rightarrow> (error \<times> 'r world) + 'r world" where
  "check_existing e d w rid =
     (if IsNewResource d
      then (case do_Get e w (Url rid) (ApiVersion rid) of
              ((existing, status, err), w1) \<Rightarrow>
                (case (case err of
                         Some x \<Rightarrow>
                           if status \<noteq> 404
                           then Some (Errorf ''checking for presence of existing'' rid x)
                           else None
                       | None \<Rightarrow> None) of
                   Some failure \<Rightarrow> Inl (failure, w1)
                 | None \<Rightarrow>
                     if length (utils_GetId e existing) > 0
                     then Inl (ImportAsExistsError ''azurermg_resource'' (ID (id_separator e) rid), w1)
                     else Inr w1))
      else Inr w)"

text \<open>
  Lines 133 to 153: the request body is the parsed body of the configuration, merged
  with the tags, the location and the identity, each only if \<^verbatim>\<open>d.GetOk\<close> reports it.
\<close>

definition compose_requestBody :: "'r env \<Rightarrow> resource_data \<Rightarrow> error + json" where
  "compose_requestBody e d =
     (case json_Unmarshal e (body d) of
        None \<Rightarrow> Inl JsonSyntaxError
      | Some b0 \<Rightarrow>
          (let b1 = (if tags d \<noteq> [] then GetMergedJson b0 (ExpandTags (tags d)) else b0);
               b2 = (if location d \<noteq> [] then GetMergedJson b1 (ExpandLocation (location d)) else b1)
           in if identity d \<noteq> []
              then (case azure_ExpandIdentity e (identity d) of
                      Inl msg \<Rightarrow> Inl (ExpandIdentityError msg)
                    | Inr bodyWithIdentity \<Rightarrow> Inr (GetMergedJson b2 bodyWithIdentity))
              else Inr b2))"

definition resourceAzureGenericResourceCreateUpdate ::
  "'r env \<Rightarrow> resource_data \<Rightarrow> 'r world \<Rightarrow> 'r outcome" where
  "resourceAzureGenericResourceCreateUpdate e d w =
     (let rid = NewResourceID (url d) (api_version d)
      in case check_existing e d w rid of
           Inl (failure, w1) \<Rightarrow> (Some failure, d, w1)
         | Inr w1 \<Rightarrow>
             (case compose_requestBody e d of
                Inl err \<Rightarrow> (Some err, d, w1)
              | Inr requestBody \<Rightarrow>
                  (let m = (if IsNewResource d then create_method d else update_method d)
                   in case do_CreateUpdate e w1 (Url rid) (ApiVersion rid) requestBody m of
                        ((b, status, err), w2) \<Rightarrow>
                          (case err of
                             Some x \<Rightarrow> (Some (Errorf ''creating/updating'' rid x), d, w2)
                           | None \<Rightarrow>
                               resourceAzureGenericResourceRead e
                                 (d\<lparr>d_Id := ID (id_separator e) rid\<rparr>) w2))))"

section \<open>Delete\<close>

definition resourceAzureGenericResourceDelete ::
  "'r env \<Rightarrow> resource_data \<Rightarrow> 'r world \<Rightarrow> 'r outcome" where
  "resourceAzureGenericResourceDelete e d w =
     (case ResourceID (id_separator e) (d_Id d) of
        Inl err \<Rightarrow> (Some err, d, w)
      | Inr rid \<Rightarrow>
          (case do_Delete e w (Url rid) (ApiVersion rid) of
             ((b, status, err), w1) \<Rightarrow>
               (case err of
                  Some x \<Rightarrow> (Some (Errorf ''deleting'' rid x), d, w1)
                | None \<Rightarrow> (None, d, w1))))"

section \<open>A small remote for worked examples\<close>

text \<open>
  The examples run the handlers against a remote that holds one document (\<open>JNull\<close>
  when the object does not exist): Get answers 404 with an error when there is none,
  CreateUpdate stores the request body, Delete removes the document and answers 404
  when there is none. \<^verbatim>\<open>encoding/json\<close> is a table of the texts the examples use; the
  empty text is not in it, as it is no JSON text.
\<close>

definition example_docs :: "(string \<times> json) list" where
  "example_docs =
     [(''{a:1,b:{c:2}}'', JObject [(''a'', JNumber 1), (''b'', JObject [(''c'', JNumber 2)])]),
      (''{a:9,b:{c:2}}'', JObject [(''a'', JNumber 9), (''b'', JObject [(''c'', JNumber 2)])]),
      (''{properties:{foo:1}}'', JObject [(''properties'', JObject [(''foo'', JNumber 1)])]),
      (''{x:1}'', JObject [(''x'', JNumber 1)]),
      (''{}'', JObject [])]"

text \<open>
  In the examples \<^verbatim>\<open>utils.GetId\<close> gives the string under the key \<^verbatim>\<open>id\<close> of an object and
  the empty string for every other value.
\<close>

definition example_GetId :: "json \<Rightarrow> string" where
  "example_GetId doc =
     (case map_of (object_fields doc) ''id'' of Some (JString s) \<Rightarrow> s | _ \<Rightarrow> [])"

definition example_env :: "json env" where
  "example_env =
     \<lparr>client_Get = (\<lambda>r u v. if r = JNull then ((JNull, 404, Some ''not found''), r)
                              else ((r, 200, None), r)),
      client_CreateUpdate = (\<lambda>r u v b m. ((b, 200, None), b)),
      client_Delete = (\<lambda>r u v. if r = JNull then ((JNull, 404, Some ''not found''), r)
                                 else ((JNull, 200, None), JNull)),
      json_Unmarshal = map_of example_docs,
      json_Marshal = map_of (map (\<lambda>(t, j). (j, t)) example_docs),
      utils_GetId = example_GetId,
      azure_ExpandIdentity =
        (\<lambda>bs. Inr (JObject [(''identity'',
                              JObject [(''type'', JString (identity_type (hd bs)))])])),
      azure_FlattenTags = (\<lambda>doc. []),
      azure_FlattenLocation = (\<lambda>doc. []),
      azure_FlattenIdentity = (\<lambda>doc. []),
      getUnsupportedProperties = [''id'', ''name''],
      id_separator = CHR ''?''\<rparr>"

definition example_data :: resource_data where
  "example_data =
     \<lparr>d_Id = ''/subscriptions/s1/providers/p%20q?2020-06-01'', IsNewResource = False,
      url = ''/subscriptions/s1/providers/p%20q'', api_version = ''2020-06-01'',
      location = [], identity = [], body = ''{a:1,b:{c:2}}'',
      create_method = ''PUT'', update_method = ''PUT'', paths = [], d_output = [], tags = []\<rparr>"

definition example_id :: ResourceId where
  "example_id = \<lparr>Url = ''/subscriptions/s1/providers/p%20q'', ApiVersion = ''2020-06-01''\<rparr>"

definition example_desired :: json where
  "example_desired = JObject [(''a'', JNumber 1), (''b'', JObject [(''c'', JNumber 2)])]"

definition example_remote :: json where
  "example_remote =
     JObject [(''a'', JNumber 9),
              (''b'', JObject [(''c'', JNumber 2), (''d'', JNumber 5)]),
              (''e'', JNumber 7)]"

definition example_nested :: json where
  "example_nested =
     JObject [(''properties'', JObject [(''foo'', JObject [(''x'', JNumber 1)])])]"

definition example_import :: json where
  "example_import =
     JObject [(''id'', JString ''X''), (''name'', JString ''Y''),
              (''properties'', JObject [(''foo'', JNumber 1)])]"

section \<open>Properties of the merge\<close>

lemma filter_present_keys_empty:
  "filter (\<lambda>(k, w). map_of kvs k = None) kvs = []"
proof -
  have "\<And>p. p \<in> set kvs \<Longrightarrow> \<not> (case p of (k, w) \<Rightarrow> map_of kvs k = None)"
  proof -
    fix p assume p: "p \<in> set kvs"
    obtain k w where kw: "p = (k, w)" by (cases p)
    have "k \<in> fst ` set kvs" using p kw by force
    then have "map_of kvs k \<noteq> None" by (simp add: map_of_eq_None_iff)
    then show "\<not> (case p of (k, w) \<Rightarrow> map_of kvs k = None)" using kw by simp
  qed
  then show ?thesis by (simp add: filter_empty_conv)
qed

lemma GetMergedJson_same: "wf_json x \<Longrightarrow> GetMergedJson x x = x"
proof (induction x)
  case (JObject kvs)
  have d: "distinct (map fst kvs)" using JObject.prems by simp
  have a: "map (\<lambda>(k, v). (k, case map_of kvs k of None \<Rightarrow> v
              | Some w \<Rightarrow> if is_object v \<and> is_object w then GetMergedJson v w else w)) kvs
           = map (\<lambda>p. p) kvs"
  proof (rule map_cong[OF refl])
    fix p assume p: "p \<in> set kvs"
    obtain k v where kv: "p = (k, v)" by (cases p)
    have m: "map_of kvs k = Some v" using d p kv by simp
    have w: "wf_json v" using JObject.prems p kv by (auto simp: list_all_iff)
    have "v \<in> Basic_BNFs.snds p" using kv by simp
    then have "GetMergedJson v v = v"
      using JObject.IH[OF p _ w] by blast
    then show "(case p of (k, v) \<Rightarrow> (k, case map_of kvs k of None \<Rightarrow> v
              | Some w \<Rightarrow> if is_object v \<and> is_object w then GetMergedJson v w else w)) = p"
      using kv m by simp
  qed
  show ?case using a by (simp add: filter_present_keys_empty)
qed simp_all

text \<open>
  C9. Merging a JSON value with itself yields the value: \<open>Merge(x, x) = x\<close>, for every
  value whose objects have no repeated key (every value of Go's maps).
\<close>

theorem merge_idempotent: "wf_json x \<Longrightarrow> GetMergedJson x x = x"
  by (rule GetMergedJson_same)

theorem merge_idempotent_witness:
  "wf_json example_remote \<and> GetMergedJson example_remote example_remote = example_remote"
proof -
  have h: "wf_json example_remote" by (simp add: example_remote_def)
  show ?thesis using h merge_idempotent [OF h] by simp
qed

section \<open>Read: the stored body\<close>

lemma GetUpdatedJson_same: "wf_json x \<Longrightarrow> GetUpdatedJson x x = x"
proof (induction x)
  case (JObject kvs)
  have d: "distinct (map fst kvs)" using JObject.prems by simp
  have "map (\<lambda>(k, v). (k, case map_of kvs k of None \<Rightarrow> v | Some w \<Rightarrow> GetUpdatedJson v w)) kvs
        = map (\<lambda>p. p) kvs"
  proof (rule map_cong[OF refl])
    fix p assume p: "p \<in> set kvs"
    obtain k v where kv: "p = (k, v)" by (cases p)
    have m: "map_of kvs k = Some v" using d p kv by simp
    have w: "wf_json v" using JObject.prems p kv by (auto simp: list_all_iff)
    have "v \<in> Basic_BNFs.snds p" using kv by simp
    then have "GetUpdatedJson v v = v"
      using JObject.IH[OF p _ w] by blast
    then show "(case p of (k, v) \<Rightarrow>
                  (k, case map_of kvs k of None \<Rightarrow> v | Some w \<Rightarrow> GetUpdatedJson v w)) = p"
      using kv m by simp
  qed
  then show ?case by simp
qed simp_all

lemma GetUpdatedJson_seed:
  assumes "wf_json r"
  shows "GetUpdatedJson (GetIgnoredJson r ks) r = GetIgnoredJson r ks"
proof (cases r)
  case (JObject kvs)
  have d: "distinct (map fst kvs)" using assms JObject by simp
  let ?keep = "filter (\<lambda>(k, v). k \<notin> set ks) kvs"
  have "map (\<lambda>(k, v). (k, case map_of kvs k of None \<Rightarrow> v | Some w \<Rightarrow> GetUpdatedJson v w)) ?keep
        = map (\<lambda>p. p) ?keep"
  proof (rule map_cong[OF refl])
    fix p assume p: "p \<in> set ?keep"
    obtain k v where kv: "p = (k, v)" by (cases p)
    have pin: "(k, v) \<in> set kvs" using p kv by simp
    have m: "map_of kvs k = Some v" using d pin by simp
    have w: "wf_json v" using assms JObject pin by (auto simp: list_all_iff)
    show "(case p of (k, v) \<Rightarrow>
             (k, case map_of kvs k of None \<Rightarrow> v | Some w \<Rightarrow> GetUpdatedJson v w)) = p"
      using kv m GetUpdatedJson_same[OF w] by simp
  qed
  then show ?thesis using JObject by simp
next
  case JNull then show ?thesis by simp
next
  case (JBool b) then show ?thesis by simp
next
  case (JNumber n) then show ?thesis by simp
next
  case (JString t) then show ?thesis by simp
next
  case (JArray xs) then show ?thesis by simp
qed

lemma map_of_map_values:
  "map_of (map (\<lambda>(k, v). (k, f k v)) xs) k = map_option (f k) (map_of xs k)"
  by (induction xs) auto

lemma map_of_filter_keys:
  "map_of (filter (\<lambda>(k, v). P k) xs) k = (if P k then map_of xs k else None)"
  by (induction xs) auto

lemma GetUpdatedJson_lookup:
  "map_of (object_fields (GetUpdatedJson (JObject dkv) (JObject rkv))) k =
     (case map_of dkv k of
        None \<Rightarrow> None
      | Some v \<Rightarrow> (case map_of rkv k of None \<Rightarrow> Some v | Some w \<Rightarrow> Some (GetUpdatedJson v w)))"
proof -
  let ?f = "\<lambda>k v. case map_of rkv k of None \<Rightarrow> v | Some w \<Rightarrow> GetUpdatedJson v w"
  have "map_of (map (\<lambda>(k, v). (k, ?f k v)) dkv) k = map_option (?f k) (map_of dkv k)"
    by (rule map_of_map_values)
  then show ?thesis by (simp split: option.splits)
qed

lemma GetUpdatedJson_keys:
  "map fst (object_fields (GetUpdatedJson (JObject dkv) (JObject rkv))) = map fst dkv"
  by (simp add: case_prod_beta comp_def)

lemma read_ok:
  assumes rid: "ResourceID (id_separator e) (d_Id d) = Inr rid"
    and get: "client_Get e (remote w) (Url rid) (ApiVersion rid) = ((responseBody, status, None), r')"
    and req: "read_requestBody e (body d) responseBody = Inr requestBody"
    and mar: "json_Marshal e (GetUpdatedJson requestBody responseBody) = Some data"
  shows "resourceAzureGenericResourceRead e d w =
     (None,
      d\<lparr>url := Url rid, api_version := ApiVersion rid, body := data,
        tags := azure_FlattenTags e responseBody,
        location := azure_FlattenLocation e responseBody,
        identity := azure_FlattenIdentity e responseBody,
        d_output := (case json_Marshal e (output_document responseBody (paths d)) of
                       None \<Rightarrow> [] | Some t \<Rightarrow> t)\<rparr>,
      \<lparr>remote = r', calls = calls w @ [(GetCall (Url rid) (ApiVersion rid), None)]\<rparr>)"
  using rid get req mar
  by (simp add: resourceAzureGenericResourceRead_def do_Get_def Let_def)

text \<open>
  C1. On read, when the body of the state parses to \<open>desired\<close> and the Get succeeds
  with \<open>responseBody\<close>, the stored body is the text of
  \<open>GetUpdatedJson desired responseBody\<close>. On two objects that value has exactly the keys
  of the desired object, in its order; a key the remote has too carries the value
  reconciled by the same rule, a key the remote lacks keeps the desired value, and a
  key of the remote alone is not in the result. For the desired body
  \<^verbatim>\<open>{"a":1,"b":{"c":2}}\<close> and the remote body \<^verbatim>\<open>{"a":9,"b":{"c":2,"d":5},"e":7}\<close> the
  result is \<^verbatim>\<open>{"a":9,"b":{"c":2}}\<close>.
\<close>

theorem reconcile_on_read:
  assumes "ResourceID (id_separator e) (d_Id d) = Inr rid"
    and "client_Get e (remote w) (Url rid) (ApiVersion rid) = ((responseBody, status, None), r')"
    and "json_Unmarshal e (body d) = Some desired"
    and "json_Marshal e (GetUpdatedJson desired responseBody) = Some data"
  shows "fst (resourceAzureGenericResourceRead e d w) = None
       \<and> body (fst (snd (resourceAzureGenericResourceRead e d w))) = data
       \<and> map fst (object_fields (GetUpdatedJson (JObject dkv) (JObject rkv))) = map fst dkv
       \<and> map_of (object_fields (GetUpdatedJson (JObject dkv) (JObject rkv))) k =
           (case map_of dkv k of
              None \<Rightarrow> None
            | Some v \<Rightarrow> (case map_of rkv k of
                           None \<Rightarrow> Some v
                         | Some x \<Rightarrow> Some (GetUpdatedJson v x)))
       \<and> GetUpdatedJson example_desired example_remote =
           JObject [(''a'', JNumber 9), (''b'', JObject [(''c'', JNumber 2)])]"
proof -
  have req: "read_requestBody e (body d) responseBody = Inr desired"
    using assms(3) by (simp add: read_requestBody_def)
  note run = read_ok [OF assms(1) assms(2) req assms(4)]
  have a: "fst (resourceAzureGenericResourceRead e d w) = None"
    by (simp add: run)
  have b: "body (fst (snd (resourceAzureGenericResourceRead e d w))) = data"
    by (simp add: run)
  have c: "GetUpdatedJson example_desired example_remote =
           JObject [(''a'', JNumber 9), (''b'', JObject [(''c'', JNumber 2)])]"
    by (simp add: example_desired_def example_remote_def)
  show ?thesis
    using a b c GetUpdatedJson_keys [of dkv rkv] GetUpdatedJson_lookup [of dkv rkv k]
    by simp
qed

theorem reconcile_on_read_witness:
  "ResourceID (id_separator example_env) (d_Id example_data) = Inr example_id
   \<and> client_Get example_env (remote \<lparr>remote = example_remote, calls = []\<rparr>)
        (Url example_id) (ApiVersion example_id) = ((example_remote, 200, None), example_remote)
   \<and> json_Unmarshal example_env (body example_data) = Some example_desired
   \<and> json_Marshal example_env (GetUpdatedJson example_desired example_remote) = Some ''{a:9,b:{c:2}}''
   \<and> fst (resourceAzureGenericResourceRead example_env example_data
            \<lparr>remote = example_remote, calls = []\<rparr>) = None
   \<and> body (fst (snd (resourceAzureGenericResourceRead example_env example_data
                        \<lparr>remote = example_remote, calls = []\<rparr>))) = ''{a:9,b:{c:2}}''
   \<and> map_of (object_fields (GetUpdatedJson example_desired example_remote)) ''e'' = None"
proof -
  have h1: "ResourceID (id_separator example_env) (d_Id example_data) = Inr example_id"
    by (simp add: example_env_def example_data_def example_id_def ResourceID_def)
  have h2: "client_Get example_env (remote \<lparr>remote = example_remote, calls = []\<rparr>)
        (Url example_id) (ApiVersion example_id) = ((example_remote, 200, None), example_remote)"
    by (simp add: example_env_def example_remote_def)
  have h3: "json_Unmarshal example_env (body example_data) = Some example_desired"
    by (simp add: example_env_def example_data_def example_docs_def example_desired_def)
  have h4: "json_Marshal example_env (GetUpdatedJson example_desired example_remote)
              = Some ''{a:9,b:{c:2}}''"
    by (simp add: example_env_def example_docs_def example_desired_def example_remote_def)
  have e: "map_of (object_fields (GetUpdatedJson example_desired example_remote)) ''e'' = None"
    by (simp add: example_desired_def example_remote_def)
  show ?thesis
    using h1 h2 h3 h4 e
      reconcile_on_read [OF h1 h2 h3 h4, of "object_fields example_desired"
        "object_fields example_remote" "''e''"]
    by simp
qed

text \<open>
  C2, as amended. On read, when the body of the state is the empty text (the import
  case: the empty text is no JSON text) and the Get succeeds, the stored body is the
  text of the whole remote body without the unsupported properties: a top-level key is
  kept with the remote's value exactly when it is not unsupported. For the remote body
  \<^verbatim>\<open>{"id":"X","name":"Y","properties":{"foo":1}}\<close> and the unsupported properties
  \<^verbatim>\<open>id\<close> and \<^verbatim>\<open>name\<close> the stored body is \<^verbatim>\<open>{"properties":{"foo":1}}\<close>.
\<close>

theorem first_import_seeding:
  assumes "ResourceID (id_separator e) (d_Id d) = Inr rid"
    and "client_Get e (remote w) (Url rid) (ApiVersion rid) = ((responseBody, status, None), r')"
    and "wf_json responseBody"
    and "body d = []"
    and "json_Unmarshal e [] = None"
    and "json_Marshal e (GetIgnoredJson responseBody (getUnsupportedProperties e)) = Some data"
  shows "fst (resourceAzureGenericResourceRead e d w) = None
       \<and> body (fst (snd (resourceAzureGenericResourceRead e d w))) = data
       \<and> map_of (object_fields (GetIgnoredJson (JObject rkv) ks)) k =
           (if k \<in> set ks then None else map_of rkv k)
       \<and> GetIgnoredJson example_import [''id'', ''name''] =
           JObject [(''properties'', JObject [(''foo'', JNumber 1)])]
       \<and> GetUpdatedJson (GetIgnoredJson example_import [''id'', ''name'']) example_import =
           JObject [(''properties'', JObject [(''foo'', JNumber 1)])]"
proof -
  let ?seed = "GetIgnoredJson responseBody (getUnsupportedProperties e)"
  have req: "read_requestBody e (body d) responseBody = Inr ?seed"
    using assms(4) assms(5) by (simp add: read_requestBody_def)
  have mar: "json_Marshal e (GetUpdatedJson ?seed responseBody) = Some data"
    using assms(6) GetUpdatedJson_seed [OF assms(3)] by simp
  note run = read_ok [OF assms(1) assms(2) req mar]
  have a: "fst (resourceAzureGenericResourceRead e d w) = None"
    by (simp add: run)
  have b: "body (fst (snd (resourceAzureGenericResourceRead e d w))) = data"
    by (simp add: run)
  have c: "map_of (object_fields (GetIgnoredJson (JObject rkv) ks)) k =
           (if k \<in> set ks then None else map_of rkv k)"
    using map_of_filter_keys [of "\<lambda>k. k \<notin> set ks" rkv k] by simp
  have d: "GetIgnoredJson example_import [''id'', ''name''] =
           JObject [(''properties'', JObject [(''foo'', JNumber 1)])]"
    by (simp add: example_import_def)
  have f: "GetUpdatedJson (GetIgnoredJson example_import [''id'', ''name'']) example_import =
           JObject [(''properties'', JObject [(''foo'', JNumber 1)])]"
    by (simp add: example_import_def)
  show ?thesis using a b c d f by simp
qed

theorem first_import_seeding_witness:
  "ResourceID (id_separator example_env) (d_Id (example_data\<lparr>body := []\<rparr>)) = Inr example_id
   \<and> client_Get example_env (remote \<lparr>remote = example_import, calls = []\<rparr>)
        (Url example_id) (ApiVersion example_id) = ((example_import, 200, None), example_import)
   \<and> wf_json example_import
   \<and> body (example_data\<lparr>body := []\<rparr>) = []
   \<and> json_Unmarshal example_env [] = None
   \<and> json_Marshal example_env (GetIgnoredJson example_import (getUnsupportedProperties example_env))
        = Some ''{properties:{foo:1}}''
   \<and> fst (resourceAzureGenericResourceRead example_env (example_data\<lparr>body := []\<rparr>)
            \<lparr>remote = example_import, calls = []\<rparr>) = None
   \<and> body (fst (snd (resourceAzureGenericResourceRead example_env (example_data\<lparr>body := []\<rparr>)
                        \<lparr>remote = example_import, calls = []\<rparr>))) = ''{properties:{foo:1}}''"
proof -
  have h1: "ResourceID (id_separator example_env) (d_Id (example_data\<lparr>body := []\<rparr>)) = Inr example_id"
    by (simp add: example_env_def example_data_def example_id_def ResourceID_def)
  have h2: "client_Get example_env (remote \<lparr>remote = example_import, calls = []\<rparr>)
        (Url example_id) (ApiVersion example_id) = ((example_import, 200, None), example_import)"
    by (simp add: example_env_def example_import_def)
  have h3: "wf_json example_import"
    by (simp add: example_import_def)
  have h4: "body (example_data\<lparr>body := []\<rparr>) = []"
    by simp
  have h5: "json_Unmarshal example_env [] = None"
    by (simp add: example_env_def example_docs_def)
  have h6: "json_Marshal example_env
              (GetIgnoredJson example_import (getUnsupportedProperties example_env))
            = Some ''{properties:{foo:1}}''"
    by (simp add: example_env_def example_docs_def example_import_def)
  show ?thesis
    using h1 h2 h3 h4 h5 h6
      first_import_seeding [OF h1 h2 h3 h4 h5 h6, of "[]" "[]" "[]"]
    by simp
qed

text \<open>
  C2 as stated, for the desired body \<^verbatim>\<open>{}\<close>, fails: the text \<^verbatim>\<open>{}\<close> parses (to the
  empty object), so line 201 returns no error and the import branch of lines 203 to 205
  is not taken; the empty object is reconciled like every other body and, having no
  key, stays empty. Against the remote body
  \<^verbatim>\<open>{"id":"X","name":"Y","properties":{"foo":1}}\<close> the stored body is \<^verbatim>\<open>{}\<close>, not
  \<^verbatim>\<open>{"properties":{"foo":1}}\<close>.
\<close>

theorem first_import_seeding_counterexample:
  "json_Unmarshal example_env ''{}'' = Some (JObject [])
   \<and> read_requestBody example_env ''{}'' example_import = Inr (JObject [])
   \<and> GetUpdatedJson (JObject []) example_import = JObject []
   \<and> fst (resourceAzureGenericResourceRead example_env (example_data\<lparr>body := ''{}''\<rparr>)
            \<lparr>remote = example_import, calls = []\<rparr>) = None
   \<and> body (fst (snd (resourceAzureGenericResourceRead example_env (example_data\<lparr>body := ''{}''\<rparr>)
                        \<lparr>remote = example_import, calls = []\<rparr>))) = ''{}''
   \<and> json_Marshal example_env (JObject [(''properties'', JObject [(''foo'', JNumber 1)])])
        = Some ''{properties:{foo:1}}''
   \<and> body (fst (snd (resourceAzureGenericResourceRead example_env (example_data\<lparr>body := ''{}''\<rparr>)
                        \<lparr>remote = example_import, calls = []\<rparr>))) \<noteq> ''{properties:{foo:1}}''"
proof -
  let ?d = "example_data\<lparr>body := ''{}''\<rparr>"
  let ?w = "\<lparr>remote = example_import, calls = []\<rparr>"
  have p: "json_Unmarshal example_env ''{}'' = Some (JObject [])"
    by (simp add: example_env_def example_docs_def)
  have q: "read_requestBody example_env ''{}'' example_import = Inr (JObject [])"
    using p by (simp add: read_requestBody_def)
  have u: "GetUpdatedJson (JObject []) example_import = JObject []"
    by (simp add: example_import_def)
  have h1: "ResourceID (id_separator example_env) (d_Id ?d) = Inr example_id"
    by (simp add: example_env_def example_data_def example_id_def ResourceID_def)
  have h2: "client_Get example_env (remote ?w) (Url example_id) (ApiVersion example_id)
              = ((example_import, 200, None), example_import)"
    by (simp add: example_env_def example_import_def)
  have h3: "read_requestBody example_env (body ?d) example_import = Inr (JObject [])"
    using q by simp
  have h4: "json_Marshal example_env (GetUpdatedJson (JObject []) example_import) = Some ''{}''"
    using u by (simp add: example_env_def example_docs_def)
  have m: "json_Marshal example_env (JObject [(''properties'', JObject [(''foo'', JNumber 1)])])
             = Some ''{properties:{foo:1}}''"
    by (simp add: example_env_def example_docs_def)
  show ?thesis
    using p q u m read_ok [OF h1 h2 h3 h4] by simp
qed

section \<open>The resource identifier\<close>



lemma no_roundtrip_with_separator:
  assumes "sep \<in> set u"
  shows "ResourceID sep (ID sep (NewResourceID u v)) \<noteq> Inr (NewResourceID u v)"
proof -
  have tw: "takeWhile (\<lambda>c. c \<noteq> sep) (u @ sep # v) = takeWhile (\<lambda>c. c \<noteq> sep) u"
    using assms by (simp add: takeWhile_append1)
  have "takeWhile (\<lambda>c. c \<noteq> sep) u \<noteq> u"
    using assms by (auto simp: takeWhile_eq_all_conv)
  then show ?thesis
    using tw by (auto simp: ResourceID_def ID_def NewResourceID_def Let_def)
qed

lemma every_separator_has_a_failing_pair:
  "[c, sep] \<noteq> [] \<and> [c] \<noteq> []
   \<and> ResourceID sep (ID sep (NewResourceID [c, sep] [c])) \<noteq> Inr (NewResourceID [c, sep] [c])"
  using no_roundtrip_with_separator [of sep "[c, sep]" "[c]"] by simp




section \<open>Paths\<close>






section \<open>Read: the output document\<close>

lemma GetMergedJson_not_nil: "new \<noteq> JNull \<Longrightarrow> GetMergedJson old new \<noteq> JNull"
  by (cases old; cases new) simp_all

lemma collect_output_foldl:
  "collect_output rb out ps =
     foldl GetMergedJson out (filter (\<lambda>part. part \<noteq> JNull) (map (ExtractObject rb) ps))"
  by (induction ps arbitrary: out) (simp_all add: Let_def)

lemma foldl_merge_not_nil:
  "out \<noteq> JNull \<Longrightarrow> list_all (\<lambda>part. part \<noteq> JNull) parts
     \<Longrightarrow> foldl GetMergedJson out parts \<noteq> JNull"
  by (induction parts arbitrary: out) (simp_all add: GetMergedJson_not_nil)

lemma output_document_foldl:
  "output_document rb ps =
     foldl GetMergedJson (JObject [])
       (filter (\<lambda>part. part \<noteq> JNull) (map (ExtractObject rb) ps))"
proof (cases ps)
  case Nil
  then show ?thesis by (simp add: output_document_def)
next
  case (Cons p ps')
  let ?parts = "filter (\<lambda>part. part \<noteq> JNull) (map (ExtractObject rb) ps)"
  have "list_all (\<lambda>part. part \<noteq> JNull) ?parts"
    by (simp add: list_all_iff)
  then have "foldl GetMergedJson (JObject []) ?parts \<noteq> JNull"
    by (intro foldl_merge_not_nil) simp_all
  then show ?thesis
    using Cons by (simp add: output_document_def collect_output_foldl Let_def del: foldl_Cons)
qed

lemma map_of_append_lookup:
  "map_of (xs @ ys) k = (case map_of xs k of None \<Rightarrow> map_of ys k | Some v \<Rightarrow> Some v)"
  by (simp add: map_add_def)

lemma GetMergedJson_lookup:
  "map_of (object_fields (GetMergedJson (JObject b) (JObject ov))) k =
     (case map_of b k of
        None \<Rightarrow> map_of ov k
      | Some v \<Rightarrow>
          (case map_of ov k of
             None \<Rightarrow> Some v
           | Some x \<Rightarrow> Some (if is_object v \<and> is_object x then GetMergedJson v x else x)))"
proof -
  let ?f = "\<lambda>k v. case map_of ov k of
                     None \<Rightarrow> v
                   | Some x \<Rightarrow> if is_object v \<and> is_object x then GetMergedJson v x else x"
  have l: "map_of (map (\<lambda>(k, v). (k, ?f k v)) b) k = map_option (?f k) (map_of b k)"
    by (rule map_of_map_values)
  have r: "map_of (filter (\<lambda>(k, w). map_of b k = None) ov) k =
           (if map_of b k = None then map_of ov k else None)"
    by (rule map_of_filter_keys)
  show ?thesis
    unfolding GetMergedJson.simps object_fields.simps map_of_append_lookup l r
    by (simp split: option.splits)
qed

text \<open>
  C7. On a read that succeeds, the stored output is the text of the output document.
  The output document starts from the empty object and merges, in the order of the list,
  the part of each path that resolves; a path that resolves to nothing contributes
  nothing, wherever it stands in the list, so the document is the empty object when the
  list is empty or no path resolves. In each merge the part of the later path is the
  overlay: on two objects, a key of the overlay carries the overlay's value (merged
  recursively when both values are objects).
\<close>

theorem output_projection:
  assumes "ResourceID (id_separator e) (d_Id d) = Inr rid"
    and "client_Get e (remote w) (Url rid) (ApiVersion rid) = ((responseBody, status, None), r')"
    and "read_requestBody e (body d) responseBody = Inr requestBody"
    and "json_Marshal e (GetUpdatedJson requestBody responseBody) = Some data"
  shows "d_output (fst (snd (resourceAzureGenericResourceRead e d w))) =
           (case json_Marshal e (output_document responseBody (paths d)) of
              None \<Rightarrow> []
            | Some t \<Rightarrow> t)
       \<and> output_document rb ps =
           foldl GetMergedJson (JObject [])
             (filter (\<lambda>part. part \<noteq> JNull) (map (ExtractObject rb) ps))
       \<and> output_document rb [] = JObject []
       \<and> (list_all (\<lambda>p. ExtractObject rb p = JNull) qs \<longrightarrow> output_document rb qs = JObject [])
       \<and> (ExtractObject rb p = JNull \<longrightarrow>
            output_document rb (ps1 @ p # ps2) = output_document rb (ps1 @ ps2))
       \<and> map_of (object_fields (GetMergedJson (JObject b) (JObject ov))) k =
           (case map_of b k of
              None \<Rightarrow> map_of ov k
            | Some v \<Rightarrow>
                (case map_of ov k of
                   None \<Rightarrow> Some v
                 | Some x \<Rightarrow> Some (if is_object v \<and> is_object x then GetMergedJson v x else x)))"
proof -
  note run = read_ok [OF assms]
  have a: "d_output (fst (snd (resourceAzureGenericResourceRead e d w))) =
           (case json_Marshal e (output_document responseBody (paths d)) of
              None \<Rightarrow> []
            | Some t \<Rightarrow> t)"
    by (simp add: run)
  have c: "output_document rb [] = JObject []"
    by (simp add: output_document_def)
  have "list_all (\<lambda>p. ExtractObject rb p = JNull) qs \<Longrightarrow>
          filter (\<lambda>part. part \<noteq> JNull) (map (ExtractObject rb) qs) = []"
    by (induction qs) simp_all
  then have d4: "list_all (\<lambda>p. ExtractObject rb p = JNull) qs \<longrightarrow> output_document rb qs = JObject []"
    by (simp add: output_document_foldl)
  have d5: "ExtractObject rb p = JNull \<longrightarrow>
            output_document rb (ps1 @ p # ps2) = output_document rb (ps1 @ ps2)"
    by (simp add: output_document_foldl)
  show ?thesis
    using a c d4 d5 output_document_foldl [of rb ps] GetMergedJson_lookup [of b ov k]
    by simp
qed

theorem output_projection_witness:
  "ResourceID (id_separator example_env)
       (d_Id (example_data\<lparr>body := ''{}'', paths := [''properties.foo'', ''properties.bar'']\<rparr>))
     = Inr example_id
   \<and> client_Get example_env (remote \<lparr>remote = example_nested, calls = []\<rparr>)
        (Url example_id) (ApiVersion example_id) = ((example_nested, 200, None), example_nested)
   \<and> read_requestBody example_env
        (body (example_data\<lparr>body := ''{}'', paths := [''properties.foo'', ''properties.bar'']\<rparr>))
        example_nested = Inr (JObject [])
   \<and> json_Marshal example_env (GetUpdatedJson (JObject []) example_nested) = Some ''{}''
   \<and> ExtractObject example_nested ''properties.bar'' = JNull
   \<and> list_all (\<lambda>p. ExtractObject example_nested p = JNull) [''properties.bar'', ''name'']
   \<and> output_document example_nested [''properties.bar'', ''name''] = JObject []
   \<and> output_document example_nested ([''properties.foo''] @ ''properties.bar'' # [])
        = output_document example_nested ([''properties.foo''] @ [])
   \<and> output_document example_nested [''properties.foo'', ''properties.bar'']
        = JObject [(''x'', JNumber 1)]
   \<and> d_output (fst (snd (resourceAzureGenericResourceRead example_env
          (example_data\<lparr>body := ''{}'', paths := [''properties.foo'', ''properties.bar'']\<rparr>)
          \<lparr>remote = example_nested, calls = []\<rparr>))) = ''{x:1}''"
proof -
  let ?d = "example_data\<lparr>body := ''{}'', paths := [''properties.foo'', ''properties.bar'']\<rparr>"
  have h1: "ResourceID (id_separator example_env) (d_Id ?d) = Inr example_id"
    by (simp add: example_env_def example_data_def example_id_def ResourceID_def)
  have h2: "client_Get example_env (remote \<lparr>remote = example_nested, calls = []\<rparr>)
        (Url example_id) (ApiVersion example_id) = ((example_nested, 200, None), example_nested)"
    by (simp add: example_env_def example_nested_def)
  have h3: "read_requestBody example_env (body ?d) example_nested = Inr (JObject [])"
    by (simp add: read_requestBody_def example_env_def example_docs_def)
  have h4: "json_Marshal example_env (GetUpdatedJson (JObject []) example_nested) = Some ''{}''"
    by (simp add: example_env_def example_docs_def example_nested_def)
  have bar: "ExtractObject example_nested ''properties.bar'' = JNull"
    by (simp add: ExtractObject_def parse_path_def parse_component_def example_nested_def)
  have name: "ExtractObject example_nested ''name'' = JNull"
    by (simp add: ExtractObject_def parse_path_def parse_component_def example_nested_def)
  have foo: "ExtractObject example_nested ''properties.foo'' = JObject [(''x'', JNumber 1)]"
    by (simp add: ExtractObject_def parse_path_def parse_component_def example_nested_def)
  have h5: "list_all (\<lambda>p. ExtractObject example_nested p = JNull) [''properties.bar'', ''name'']"
    using bar name by simp
  have out: "output_document example_nested [''properties.foo'', ''properties.bar'']
        = JObject [(''x'', JNumber 1)]"
    using foo bar by (simp add: output_document_def)
  have out1: "output_document example_nested [''properties.foo''] = JObject [(''x'', JNumber 1)]"
    using foo by (simp add: output_document_def)
  have m: "json_Marshal example_env (JObject [(''x'', JNumber 1)]) = Some ''{x:1}''"
    by (simp add: example_env_def example_docs_def)
  show ?thesis
    using h1 h2 h3 h4 h5 bar out out1 m
      output_projection [OF h1 h2 h3 h4, where rb = example_nested
        and ps = "[''properties.foo'', ''properties.bar'']"
        and qs = "[''properties.bar'', ''name'']"
        and p = "''properties.bar''" and ?ps1.0 = "[''properties.foo'']" and ?ps2.0 = "[]"
        and b = "[]" and ov = "[]" and k = "[]"]
    by simp
qed

section \<open>Create and update: the existence guard\<close>

lemma do_Get_calls: "prefix (calls w) (calls (snd (do_Get e w u v)))"
  by (simp add: do_Get_def split: prod.splits)

lemma read_world:
  "snd (snd (resourceAzureGenericResourceRead e d w)) =
     (case ResourceID (id_separator e) (d_Id d) of
        Inl err \<Rightarrow> w
      | Inr rid \<Rightarrow> snd (do_Get e w (Url rid) (ApiVersion rid)))"
  by (simp add: resourceAzureGenericResourceRead_def Let_def
      split: sum.splits prod.splits option.splits)

lemma read_calls:
  "prefix (calls w) (calls (snd (snd (resourceAzureGenericResourceRead e d w))))"
  by (simp add: read_world do_Get_calls split: sum.splits)

lemma check_existing_new:
  assumes "IsNewResource d"
    and "client_Get e (remote w) (Url rid) (ApiVersion rid) = ((existing, status, err), r')"
  shows "check_existing e d w rid =
     (let w1 = \<lparr>remote = r', calls = calls w @ [(GetCall (Url rid) (ApiVersion rid), err)]\<rparr>
      in case err of
           Some x \<Rightarrow>
             if status \<noteq> 404
             then Inl (Errorf ''checking for presence of existing'' rid x, w1)
             else if utils_GetId e existing \<noteq> []
                  then Inl (ImportAsExistsError ''azurermg_resource'' (ID (id_separator e) rid), w1)
                  else Inr w1
         | None \<Rightarrow>
             if utils_GetId e existing \<noteq> []
             then Inl (ImportAsExistsError ''azurermg_resource'' (ID (id_separator e) rid), w1)
             else Inr w1)"
  using assms by (simp add: check_existing_def do_Get_def Let_def split: option.splits)

lemma check_existing_calls:
  "check_existing e d w rid = Inr w1 \<Longrightarrow> prefix (calls w) (calls w1)"
  by (auto simp: check_existing_def do_Get_def split: if_splits prod.splits option.splits)

lemma create_update_calls_new:
  assumes "IsNewResource d"
    and "client_Get e (remote w) (url d) (api_version d) = ((existing, status, err), r')"
  shows "prefix (calls w @ [(GetCall (url d) (api_version d), err)])
           (calls (snd (snd (resourceAzureGenericResourceCreateUpdate e d w))))"
proof -
  let ?rid = "NewResourceID (url d) (api_version d)"
  let ?w1 = "\<lparr>remote = r', calls = calls w @ [(GetCall (url d) (api_version d), err)]\<rparr>"
  have get: "client_Get e (remote w) (Url ?rid) (ApiVersion ?rid) = ((existing, status, err), r')"
    using assms(2) by (simp add: NewResourceID_def)
  have chk: "check_existing e d w ?rid = Inr ?w1 \<or> (\<exists>x. check_existing e d w ?rid = Inl (x, ?w1))"
    using check_existing_new [OF assms(1) get]
    by (simp add: NewResourceID_def Let_def split: option.splits)
  show ?thesis
  proof (cases "check_existing e d w ?rid")
    case (Inl a)
    then show ?thesis using chk
      by (auto simp: resourceAzureGenericResourceCreateUpdate_def Let_def)
  next
    case (Inr w1)
    then have w1: "w1 = ?w1" using chk by auto
    show ?thesis
    proof (cases "compose_requestBody e d")
      case (Inl err')
      then show ?thesis using Inr w1
        by (simp add: resourceAzureGenericResourceCreateUpdate_def Let_def)
    next
      case (Inr requestBody)
      let ?m = "create_method d"
      obtain b st err2 r2 where cu:
        "client_CreateUpdate e (remote ?w1) (url d) (api_version d) requestBody ?m
           = ((b, st, err2), r2)"
        by (metis prod_cases3 surj_pair)
      let ?w2 = "\<lparr>remote = r2, calls = calls ?w1
                   @ [(CreateUpdateCall (url d) (api_version d) requestBody ?m, err2)]\<rparr>"
      have docu: "do_CreateUpdate e ?w1 (Url ?rid) (ApiVersion ?rid) requestBody ?m
                    = ((b, st, err2), ?w2)"
        using cu by (simp add: do_CreateUpdate_def NewResourceID_def)
      have step: "prefix (calls ?w1) (calls ?w2)" by simp
      show ?thesis
      proof (cases err2)
        case None
        let ?res = "resourceAzureGenericResourceRead e
                      (d\<lparr>d_Id := ID (id_separator e) ?rid\<rparr>) ?w2"
        have "prefix (calls ?w2) (calls (snd (snd ?res)))"
          by (rule read_calls)
        with step have "prefix (calls ?w1) (calls (snd (snd ?res)))"
          by (rule prefix_order.trans)
        moreover have "resourceAzureGenericResourceCreateUpdate e d w = ?res"
          using \<open>check_existing e d w ?rid = Inr w1\<close> w1 Inr docu None assms(1)
          by (simp add: resourceAzureGenericResourceCreateUpdate_def Let_def)
        ultimately show ?thesis by simp
      next
        case (Some x)
        have "resourceAzureGenericResourceCreateUpdate e d w =
                (Some (Errorf ''creating/updating'' ?rid x), d, ?w2)"
          using \<open>check_existing e d w ?rid = Inr w1\<close> w1 Inr docu Some assms(1)
          by (simp add: resourceAzureGenericResourceCreateUpdate_def Let_def)
        then show ?thesis by simp
      qed
    qed
  qed
qed

text \<open>
  C3, as amended. For a new resource, create-or-update first issues a Get at the url and api
  version of the configuration: whatever happens next, that Get is the first call it
  adds to the record of remote calls. When the Get returns a body (it succeeds, or it
  reports 404) whose id is not empty, the handler fails with the import-as-exists
  error for the identifier, leaves the resource data as it was, and has issued no other
  call: the remote CreateUpdate is not reached.
\<close>

theorem existence_guard:
  assumes "IsNewResource d"
    and "client_Get e (remote w) (url d) (api_version d) = ((existing, status, err), r')"
    and "err = None \<or> status = 404"
    and "utils_GetId e existing \<noteq> []"
  shows "resourceAzureGenericResourceCreateUpdate e d w =
           (Some (ImportAsExistsError ''azurermg_resource''
                    (ID (id_separator e) (NewResourceID (url d) (api_version d)))),
            d,
            \<lparr>remote = r', calls = calls w @ [(GetCall (url d) (api_version d), err)]\<rparr>)
       \<and> (IsNewResource d2 \<longrightarrow>
            prefix (calls w2 @ [(GetCall (url d2) (api_version d2),
                                 snd (snd (fst (client_Get e2 (remote w2) (url d2) (api_version d2)))))])
              (calls (snd (snd (resourceAzureGenericResourceCreateUpdate e2 d2 w2)))))"
proof -
  let ?rid = "NewResourceID (url d) (api_version d)"
  have get: "client_Get e (remote w) (Url ?rid) (ApiVersion ?rid) = ((existing, status, err), r')"
    using assms(2) by (simp add: NewResourceID_def)
  have chk: "check_existing e d w ?rid =
               Inl (ImportAsExistsError ''azurermg_resource'' (ID (id_separator e) ?rid),
                    \<lparr>remote = r', calls = calls w @ [(GetCall (url d) (api_version d), err)]\<rparr>)"
    using check_existing_new [OF assms(1) get] assms(3) assms(4)
    by (auto simp: NewResourceID_def Let_def split: option.splits)
  have a: "resourceAzureGenericResourceCreateUpdate e d w =
           (Some (ImportAsExistsError ''azurermg_resource'' (ID (id_separator e) ?rid)),
            d,
            \<lparr>remote = r', calls = calls w @ [(GetCall (url d) (api_version d), err)]\<rparr>)"
    using chk by (simp add: resourceAzureGenericResourceCreateUpdate_def Let_def)
  have b: "IsNewResource d2 \<longrightarrow>
            prefix (calls w2 @ [(GetCall (url d2) (api_version d2),
                                 snd (snd (fst (client_Get e2 (remote w2) (url d2) (api_version d2)))))])
              (calls (snd (snd (resourceAzureGenericResourceCreateUpdate e2 d2 w2))))"
  proof
    assume new: "IsNewResource d2"
    obtain ex st er r2 where g:
      "client_Get e2 (remote w2) (url d2) (api_version d2) = ((ex, st, er), r2)"
      by (metis prod_cases3 surj_pair)
    show "prefix (calls w2 @ [(GetCall (url d2) (api_version d2),
                                 snd (snd (fst (client_Get e2 (remote w2) (url d2) (api_version d2)))))])
              (calls (snd (snd (resourceAzureGenericResourceCreateUpdate e2 d2 w2))))"
      using create_update_calls_new [OF new g] g by simp
  qed
  show ?thesis using a b by blast
qed

theorem existence_guard_witness:
  "IsNewResource (example_data\<lparr>IsNewResource := True, d_Id := []\<rparr>)
   \<and> client_Get example_env (remote \<lparr>remote = example_import, calls = []\<rparr>)
        (url (example_data\<lparr>IsNewResource := True, d_Id := []\<rparr>))
        (api_version (example_data\<lparr>IsNewResource := True, d_Id := []\<rparr>))
       = ((example_import, 200, None), example_import)
   \<and> utils_GetId example_env example_import \<noteq> []
   \<and> resourceAzureGenericResourceCreateUpdate example_env
        (example_data\<lparr>IsNewResource := True, d_Id := []\<rparr>)
        \<lparr>remote = example_import, calls = []\<rparr>
       = (Some (ImportAsExistsError ''azurermg_resource''
                 ''/subscriptions/s1/providers/p%20q?2020-06-01''),
          example_data\<lparr>IsNewResource := True, d_Id := []\<rparr>,
          \<lparr>remote = example_import,
           calls = [(GetCall ''/subscriptions/s1/providers/p%20q'' ''2020-06-01'', None)]\<rparr>)"
proof -
  let ?d = "example_data\<lparr>IsNewResource := True, d_Id := []\<rparr>"
  let ?w = "\<lparr>remote = example_import, calls = []\<rparr>"
  have h1: "IsNewResource ?d" by simp
  have h2: "client_Get example_env (remote ?w) (url ?d) (api_version ?d)
              = ((example_import, 200, None), example_import)"
    by (simp add: example_env_def example_import_def)
  have h3: "(None :: string option) = None \<or> (200::nat) = 404" by simp
  have h4: "utils_GetId example_env example_import \<noteq> []"
    by (simp add: example_env_def example_GetId_def example_import_def)
  have i: "ID (id_separator example_env) (NewResourceID (url ?d) (api_version ?d))
             = ''/subscriptions/s1/providers/p%20q?2020-06-01''"
    by (simp add: ID_def NewResourceID_def example_env_def example_data_def)
  have u: "url ?d = ''/subscriptions/s1/providers/p%20q''"
    and v: "api_version ?d = ''2020-06-01''"
    by (simp_all add: example_data_def)
  show ?thesis
    using h1 h2 h4 i u v
      existence_guard [OF h1 h2 h3 h4, where ?d2.0 = "?d" and ?w2.0 = "?w" and ?e2.0 = example_env]
    by simp
qed

text \<open>
  C3 as stated, for every non-empty body, fails: line 128 tests the id of the
  body that came back, not the body. Against a remote whose document
  \<^verbatim>\<open>{"properties":{"foo":{"x":1}}}\<close> is not empty and has no id, the Get of a new
  resource succeeds with that body, the guard is passed, the remote CreateUpdate is
  issued and the handler returns no error.
\<close>

theorem existence_guard_counterexample:
  "IsNewResource (example_data\<lparr>IsNewResource := True, d_Id := []\<rparr>)
   \<and> client_Get example_env (remote \<lparr>remote = example_nested, calls = []\<rparr>)
        (url (example_data\<lparr>IsNewResource := True, d_Id := []\<rparr>))
        (api_version (example_data\<lparr>IsNewResource := True, d_Id := []\<rparr>))
       = ((example_nested, 200, None), example_nested)
   \<and> example_nested \<noteq> JNull
   \<and> object_fields example_nested \<noteq> []
   \<and> utils_GetId example_env example_nested = []
   \<and> fst (resourceAzureGenericResourceCreateUpdate example_env
        (example_data\<lparr>IsNewResource := True, d_Id := []\<rparr>)
        \<lparr>remote = example_nested, calls = []\<rparr>) = None
   \<and> calls (snd (snd (resourceAzureGenericResourceCreateUpdate example_env
        (example_data\<lparr>IsNewResource := True, d_Id := []\<rparr>)
        \<lparr>remote = example_nested, calls = []\<rparr>)))
       = [(GetCall ''/subscriptions/s1/providers/p%20q'' ''2020-06-01'', None),
          (CreateUpdateCall ''/subscriptions/s1/providers/p%20q'' ''2020-06-01''
             example_desired ''PUT'', None),
          (GetCall ''/subscriptions/s1/providers/p%20q'' ''2020-06-01'', None)]"
  by (simp add: resourceAzureGenericResourceCreateUpdate_def check_existing_def
      compose_requestBody_def resourceAzureGenericResourceRead_def read_requestBody_def
      do_Get_def do_CreateUpdate_def ResourceID_def ID_def NewResourceID_def output_document_def
      example_env_def example_data_def example_docs_def example_GetId_def example_nested_def
      example_desired_def Let_def)

section \<open>Create and update: the request body\<close>

lemma compose_requestBody_merges:
  assumes "json_Unmarshal e (body d) = Some desired"
    and "identity d = [] \<or> azure_ExpandIdentity e (identity d) = Inr bodyWithIdentity"
  shows "compose_requestBody e d =
     Inr (GetMergedJson
            (GetMergedJson
               (GetMergedJson desired (if tags d \<noteq> [] then ExpandTags (tags d) else JNull))
               (if location d \<noteq> [] then ExpandLocation (location d) else JNull))
            (if identity d \<noteq> [] then bodyWithIdentity else JNull))"
  using assms by (auto simp: compose_requestBody_def Let_def)

lemma create_update_issues:
  assumes chk: "check_existing e d w (NewResourceID (url d) (api_version d)) = Inr w1"
    and cmp: "compose_requestBody e d = Inr requestBody"
  shows "prefix
           (calls w1 @
              [(CreateUpdateCall (url d) (api_version d) requestBody
                  (if IsNewResource d then create_method d else update_method d),
                snd (snd (fst (client_CreateUpdate e (remote w1) (url d) (api_version d) requestBody
                  (if IsNewResource d then create_method d else update_method d)))))])
           (calls (snd (snd (resourceAzureGenericResourceCreateUpdate e d w))))"
proof -
  let ?rid = "NewResourceID (url d) (api_version d)"
  let ?m = "if IsNewResource d then create_method d else update_method d"
  obtain b st err2 r2 where cu:
    "client_CreateUpdate e (remote w1) (url d) (api_version d) requestBody ?m = ((b, st, err2), r2)"
    by (metis prod_cases3 surj_pair)
  let ?w2 = "\<lparr>remote = r2, calls = calls w1
               @ [(CreateUpdateCall (url d) (api_version d) requestBody ?m, err2)]\<rparr>"
  have docu: "do_CreateUpdate e w1 (Url ?rid) (ApiVersion ?rid) requestBody ?m
                = ((b, st, err2), ?w2)"
    using cu by (simp add: do_CreateUpdate_def NewResourceID_def)
  have goal: "prefix (calls ?w2) (calls (snd (snd (resourceAzureGenericResourceCreateUpdate e d w))))"
  proof (cases err2)
    case None
    let ?res = "resourceAzureGenericResourceRead e (d\<lparr>d_Id := ID (id_separator e) ?rid\<rparr>) ?w2"
    have "resourceAzureGenericResourceCreateUpdate e d w = ?res"
      using chk cmp docu None
      by (simp add: resourceAzureGenericResourceCreateUpdate_def Let_def)
    then show ?thesis using read_calls [of ?w2 e "d\<lparr>d_Id := ID (id_separator e) ?rid\<rparr>"]
      by simp
  next
    case (Some x)
    have "resourceAzureGenericResourceCreateUpdate e d w =
            (Some (Errorf ''creating/updating'' ?rid x), d, ?w2)"
      using chk cmp docu Some
      by (simp add: resourceAzureGenericResourceCreateUpdate_def Let_def)
    then show ?thesis by simp
  qed
  show ?thesis using goal cu by simp
qed

lemma merge_fragment_object:
  "is_object base \<Longrightarrow> frag = JNull \<or> is_object frag \<Longrightarrow> is_object (GetMergedJson base frag)"
  by (cases base; cases frag) simp_all

text \<open>
  C5. On create and on update, once the existence guard is passed and the body parses,
  the request body handed to the remote CreateUpdate is the parsed body merged with the
  tags fragment, then the location fragment, then the identity fragment, each fragment
  as the overlay of its merge; the fragment of a field that is not set is absent, and
  merging an absent overlay leaves the base as it is. The overlay wins on a key of both
  objects (merged recursively when both values are objects): with the location set and
  no identity, the request body of an object body carries the location of the
  configuration.
\<close>

theorem request_body_composition:
  assumes "check_existing e d w (NewResourceID (url d) (api_version d)) = Inr w1"
    and "json_Unmarshal e (body d) = Some desired"
    and "identity d = [] \<or> azure_ExpandIdentity e (identity d) = Inr bodyWithIdentity"
  shows "(let tagsFragment = (if tags d \<noteq> [] then ExpandTags (tags d) else JNull);
              locationFragment = (if location d \<noteq> [] then ExpandLocation (location d) else JNull);
              identityFragment = (if identity d \<noteq> [] then bodyWithIdentity else JNull);
              requestBody =
                GetMergedJson
                  (GetMergedJson (GetMergedJson desired tagsFragment) locationFragment)
                  identityFragment;
              m = (if IsNewResource d then create_method d else update_method d)
          in compose_requestBody e d = Inr requestBody
           \<and> prefix
               (calls w1 @
                  [(CreateUpdateCall (url d) (api_version d) requestBody m,
                    snd (snd (fst (client_CreateUpdate e (remote w1) (url d) (api_version d)
                                     requestBody m))))])
               (calls (snd (snd (resourceAzureGenericResourceCreateUpdate e d w))))
           \<and> (is_object desired \<and> location d \<noteq> [] \<and> identity d = [] \<longrightarrow>
                map_of (object_fields requestBody) ''location'' = Some (JString (location d))))
       \<and> GetMergedJson base JNull = base
       \<and> map_of (object_fields (GetMergedJson (JObject b) (JObject ov))) k =
           (case map_of b k of
              None \<Rightarrow> map_of ov k
            | Some v \<Rightarrow>
                (case map_of ov k of
                   None \<Rightarrow> Some v
                 | Some x \<Rightarrow> Some (if is_object v \<and> is_object x then GetMergedJson v x else x)))"
proof -
  let ?T = "if tags d \<noteq> [] then ExpandTags (tags d) else JNull"
  let ?L = "if location d \<noteq> [] then ExpandLocation (location d) else JNull"
  let ?I = "if identity d \<noteq> [] then bodyWithIdentity else JNull"
  let ?rb = "GetMergedJson (GetMergedJson (GetMergedJson desired ?T) ?L) ?I"
  have cmp: "compose_requestBody e d = Inr ?rb"
    by (rule compose_requestBody_merges [OF assms(2) assms(3)])
  note issued = create_update_issues [OF assms(1) cmp]
  have loc: "is_object desired \<and> location d \<noteq> [] \<and> identity d = [] \<longrightarrow>
                map_of (object_fields ?rb) ''location'' = Some (JString (location d))"
  proof
    assume h: "is_object desired \<and> location d \<noteq> [] \<and> identity d = []"
    have "?T = JNull \<or> is_object ?T" by (simp add: ExpandTags_def)
    then have "is_object (GetMergedJson desired ?T)"
      using h merge_fragment_object by blast
    then obtain kvs where kvs: "GetMergedJson desired ?T = JObject kvs"
      by (cases "GetMergedJson desired ?T") simp_all
    have "map_of (object_fields (GetMergedJson (JObject kvs)
             (JObject [(''location'', JString (location d))]))) ''location''
          = Some (JString (location d))"
      unfolding GetMergedJson_lookup by (simp split: option.splits)
    then show "map_of (object_fields ?rb) ''location'' = Some (JString (location d))"
      using h kvs by (simp add: ExpandLocation_def)
  qed
  have nil: "GetMergedJson base JNull = base" by simp
  show ?thesis
    unfolding Let_def
    using cmp issued loc nil GetMergedJson_lookup [of b ov k] by blast
qed

theorem request_body_composition_witness:
  "check_existing example_env
      (example_data\<lparr>tags := [(''env'', ''prod'')], location := ''westeurope''\<rparr>)
      \<lparr>remote = example_remote, calls = []\<rparr>
      (NewResourceID (url (example_data\<lparr>tags := [(''env'', ''prod'')], location := ''westeurope''\<rparr>))
         (api_version (example_data\<lparr>tags := [(''env'', ''prod'')], location := ''westeurope''\<rparr>)))
     = Inr \<lparr>remote = example_remote, calls = []\<rparr>
   \<and> json_Unmarshal example_env
        (body (example_data\<lparr>tags := [(''env'', ''prod'')], location := ''westeurope''\<rparr>))
       = Some example_desired
   \<and> identity (example_data\<lparr>tags := [(''env'', ''prod'')], location := ''westeurope''\<rparr>) = []
   \<and> compose_requestBody example_env
        (example_data\<lparr>tags := [(''env'', ''prod'')], location := ''westeurope''\<rparr>)
       = Inr (JObject [(''a'', JNumber 1), (''b'', JObject [(''c'', JNumber 2)]),
                       (''tags'', JObject [(''env'', JString ''prod'')]),
                       (''location'', JString ''westeurope'')])
   \<and> is_object example_desired"
proof -
  let ?d = "example_data\<lparr>tags := [(''env'', ''prod'')], location := ''westeurope''\<rparr>"
  let ?w = "\<lparr>remote = example_remote, calls = []\<rparr>"
  have h1: "check_existing example_env ?d ?w (NewResourceID (url ?d) (api_version ?d)) = Inr ?w"
    by (simp add: check_existing_def example_data_def)
  have h2: "json_Unmarshal example_env (body ?d) = Some example_desired"
    by (simp add: example_env_def example_data_def example_docs_def example_desired_def)
  have h3: "identity ?d = []" by (simp add: example_data_def)
  have h3': "identity ?d = [] \<or> azure_ExpandIdentity example_env (identity ?d) = Inr JNull"
    using h3 by simp
  have t: "tags ?d = [(''env'', ''prod'')]" and l: "location ?d = ''westeurope''"
    by simp_all
  have o: "is_object example_desired" by (simp add: example_desired_def)
  have v: "GetMergedJson (GetMergedJson example_desired (ExpandTags [(''env'', ''prod'')]))
             (ExpandLocation ''westeurope'')
           = JObject [(''a'', JNumber 1), (''b'', JObject [(''c'', JNumber 2)]),
                       (''tags'', JObject [(''env'', JString ''prod'')]),
                       (''location'', JString ''westeurope'')]"
    by (simp add: example_desired_def ExpandTags_def ExpandLocation_def)
  show ?thesis
    using h1 h2 h3 o v
      request_body_composition [OF h1 h2 h3', where base = JNull and b = "[]" and ov = "[]" and k = "[]"]
    unfolding Let_def t l h3
    by simp
qed

section \<open>Create and update: the stored identifier\<close>

lemma read_errors:
  assumes "fst (resourceAzureGenericResourceRead e d w) = Some err"
  shows "err = MalformedIdentifier
       \<or> (\<exists>rid x. err = Errorf ''reading'' rid x)
       \<or> (err = JsonSyntaxError \<and> json_Unmarshal e (body d) = None)
       \<or> err = JsonMarshalError"
proof (cases "ResourceID (id_separator e) (d_Id d)")
  case (Inl a)
  then have "resourceAzureGenericResourceRead e d w = (Some a, d, w)"
    by (simp add: resourceAzureGenericResourceRead_def)
  moreover have "a = MalformedIdentifier"
    using Inl by (simp add: ResourceID_def Let_def split: if_splits)
  ultimately show ?thesis using assms by simp
next
  case (Inr rid)
  obtain rb st er w1 where g: "do_Get e w (Url rid) (ApiVersion rid) = ((rb, st, er), w1)"
    by (metis prod_cases3 surj_pair)
  show ?thesis
  proof (cases er)
    case (Some x)
    then show ?thesis using assms Inr g
      by (auto simp: resourceAzureGenericResourceRead_def split: if_splits)
  next
    case None
    show ?thesis
    proof (cases "read_requestBody e (body d) rb")
      case (Inl a)
      then have "a = JsonSyntaxError \<and> json_Unmarshal e (body d) = None"
        by (simp add: read_requestBody_def split: option.splits if_splits)
      then show ?thesis using assms Inr g None Inl
        by (auto simp: resourceAzureGenericResourceRead_def Let_def)
    next
      case (Inr requestBody)
      then show ?thesis using assms \<open>ResourceID (id_separator e) (d_Id d) = Inr rid\<close> g None
        by (auto simp: resourceAzureGenericResourceRead_def Let_def split: option.splits)
    qed
  qed
qed

lemma create_update_outcomes:
  "(fst (snd (resourceAzureGenericResourceCreateUpdate e d w)) = d
      \<and> (fst (resourceAzureGenericResourceCreateUpdate e d w) = None
          \<or> (\<exists>rid x. fst (resourceAzureGenericResourceCreateUpdate e d w)
                        = Some (Errorf ''checking for presence of existing'' rid x))
          \<or> (\<exists>n i. fst (resourceAzureGenericResourceCreateUpdate e d w)
                        = Some (ImportAsExistsError n i))
          \<or> fst (resourceAzureGenericResourceCreateUpdate e d w) = Some JsonSyntaxError
          \<or> (\<exists>msg. fst (resourceAzureGenericResourceCreateUpdate e d w)
                        = Some (ExpandIdentityError msg))
          \<or> (\<exists>rid x. fst (resourceAzureGenericResourceCreateUpdate e d w)
                        = Some (Errorf ''creating/updating'' rid x))))
   \<or> (\<exists>w1 requestBody r2.
         check_existing e d w (NewResourceID (url d) (api_version d)) = Inr w1
       \<and> compose_requestBody e d = Inr requestBody
       \<and> resourceAzureGenericResourceCreateUpdate e d w =
           resourceAzureGenericResourceRead e
             (d\<lparr>d_Id := ID (id_separator e) (NewResourceID (url d) (api_version d))\<rparr>)
             \<lparr>remote = r2,
              calls = calls w1 @
                [(CreateUpdateCall (url d) (api_version d) requestBody
                    (if IsNewResource d then create_method d else update_method d), None)]\<rparr>)"
proof -
  let ?rid = "NewResourceID (url d) (api_version d)"
  let ?m = "if IsNewResource d then create_method d else update_method d"
  show ?thesis
  proof (cases "check_existing e d w ?rid")
    case (Inl a)
    obtain failure w1 where a: "a = (failure, w1)" by (cases a)
    have run: "resourceAzureGenericResourceCreateUpdate e d w = (Some failure, d, w1)"
      using Inl a by (simp add: resourceAzureGenericResourceCreateUpdate_def Let_def)
    have "(\<exists>rid x. failure = Errorf ''checking for presence of existing'' rid x)
            \<or> (\<exists>n i. failure = ImportAsExistsError n i)"
      using Inl a
      by (auto simp: check_existing_def split: if_splits prod.splits option.splits)
    then show ?thesis using run by auto
  next
    case (Inr w1)
    show ?thesis
    proof (cases "compose_requestBody e d")
      case (Inl err)
      have run: "resourceAzureGenericResourceCreateUpdate e d w = (Some err, d, w1)"
        using Inr Inl by (simp add: resourceAzureGenericResourceCreateUpdate_def Let_def)
      have "err = JsonSyntaxError \<or> (\<exists>msg. err = ExpandIdentityError msg)"
        using Inl
        by (auto simp: compose_requestBody_def Let_def split: option.splits if_splits sum.splits)
      then show ?thesis using run by auto
    next
      case (Inr requestBody)
      obtain b st err2 r2 where cu:
        "client_CreateUpdate e (remote w1) (url d) (api_version d) requestBody ?m
           = ((b, st, err2), r2)"
        by (metis prod_cases3 surj_pair)
      let ?w2 = "\<lparr>remote = r2, calls = calls w1
                   @ [(CreateUpdateCall (url d) (api_version d) requestBody ?m, err2)]\<rparr>"
      have docu: "do_CreateUpdate e w1 (Url ?rid) (ApiVersion ?rid) requestBody ?m
                    = ((b, st, err2), ?w2)"
        using cu by (simp add: do_CreateUpdate_def NewResourceID_def)
      show ?thesis
      proof (cases err2)
        case None
        have "resourceAzureGenericResourceCreateUpdate e d w =
                resourceAzureGenericResourceRead e (d\<lparr>d_Id := ID (id_separator e) ?rid\<rparr>) ?w2"
          using \<open>check_existing e d w ?rid = Inr w1\<close> Inr docu None
          by (simp add: resourceAzureGenericResourceCreateUpdate_def Let_def)
        then show ?thesis
          using \<open>check_existing e d w ?rid = Inr w1\<close> Inr None by blast
      next
        case (Some x)
        have "resourceAzureGenericResourceCreateUpdate e d w =
                (Some (Errorf ''creating/updating'' ?rid x), d, ?w2)"
          using \<open>check_existing e d w ?rid = Inr w1\<close> Inr docu Some
          by (simp add: resourceAzureGenericResourceCreateUpdate_def Let_def)
        then show ?thesis by auto
      qed
    qed
  qed
qed

lemma compose_requestBody_parsed:
  "compose_requestBody e d = Inr requestBody \<Longrightarrow> json_Unmarshal e (body d) \<noteq> None"
  by (auto simp: compose_requestBody_def split: option.splits)

text \<open>
  C10. When create-or-update returns an error of the existence check, the
  import-as-exists error, the error of parsing the body, an error of expanding the
  identity or the error of the remote CreateUpdate, the resource data is left as it was,
  the stored identifier included. The identifier changes only after a remote
  CreateUpdate at the url and api version of the configuration that returned no error:
  if the identifier after the handler differs from the one before, such a call is among
  the calls the handler added.
\<close>

theorem id_unchanged_on_failure:
  assumes "fst (resourceAzureGenericResourceCreateUpdate e d w) = Some err"
    and "(\<exists>rid x. err = Errorf ''checking for presence of existing'' rid x)
       \<or> (\<exists>n i. err = ImportAsExistsError n i)
       \<or> err = JsonSyntaxError
       \<or> (\<exists>msg. err = ExpandIdentityError msg)
       \<or> (\<exists>rid x. err = Errorf ''creating/updating'' rid x)"
  shows "fst (snd (resourceAzureGenericResourceCreateUpdate e d w)) = d
       \<and> d_Id (fst (snd (resourceAzureGenericResourceCreateUpdate e d w))) = d_Id d
       \<and> (d_Id (fst (snd (resourceAzureGenericResourceCreateUpdate e2 d2 w2))) \<noteq> d_Id d2 \<longrightarrow>
            (\<exists>requestBody m.
               (CreateUpdateCall (url d2) (api_version d2) requestBody m, None)
                 \<in> set (drop (length (calls w2))
                      (calls (snd (snd (resourceAzureGenericResourceCreateUpdate e2 d2 w2)))))))"
proof -
  have same: "fst (snd (resourceAzureGenericResourceCreateUpdate e d w)) = d"
  proof (rule ccontr)
    assume changed: "fst (snd (resourceAzureGenericResourceCreateUpdate e d w)) \<noteq> d"
    then have "\<exists>w1 requestBody r2.
         check_existing e d w (NewResourceID (url d) (api_version d)) = Inr w1
       \<and> compose_requestBody e d = Inr requestBody
       \<and> resourceAzureGenericResourceCreateUpdate e d w =
           resourceAzureGenericResourceRead e
             (d\<lparr>d_Id := ID (id_separator e) (NewResourceID (url d) (api_version d))\<rparr>)
             \<lparr>remote = r2,
              calls = calls w1 @
                [(CreateUpdateCall (url d) (api_version d) requestBody
                    (if IsNewResource d then create_method d else update_method d), None)]\<rparr>"
      using create_update_outcomes [of e d w] by simp
    then obtain w1 requestBody r2 where
      chk: "check_existing e d w (NewResourceID (url d) (api_version d)) = Inr w1" and
      cmp: "compose_requestBody e d = Inr requestBody" and
      run: "resourceAzureGenericResourceCreateUpdate e d w =
              resourceAzureGenericResourceRead e
                (d\<lparr>d_Id := ID (id_separator e) (NewResourceID (url d) (api_version d))\<rparr>)
                \<lparr>remote = r2,
                 calls = calls w1 @
                   [(CreateUpdateCall (url d) (api_version d) requestBody
                       (if IsNewResource d then create_method d else update_method d), None)]\<rparr>"
      by blast
    have parsed: "json_Unmarshal e (body d) \<noteq> None"
      by (rule compose_requestBody_parsed [OF cmp])
    have "err = MalformedIdentifier
       \<or> (\<exists>rid x. err = Errorf ''reading'' rid x)
       \<or> (err = JsonSyntaxError \<and> json_Unmarshal e (body d) = None)
       \<or> err = JsonMarshalError"
      using read_errors [of e _ _ err] assms(1) run by fastforce
    then show False using assms(2) parsed by auto
  qed
  have only_after: "d_Id (fst (snd (resourceAzureGenericResourceCreateUpdate e2 d2 w2))) \<noteq> d_Id d2 \<longrightarrow>
            (\<exists>requestBody m.
               (CreateUpdateCall (url d2) (api_version d2) requestBody m, None)
                 \<in> set (drop (length (calls w2))
                      (calls (snd (snd (resourceAzureGenericResourceCreateUpdate e2 d2 w2))))))"
  proof
    assume "d_Id (fst (snd (resourceAzureGenericResourceCreateUpdate e2 d2 w2))) \<noteq> d_Id d2"
    then have "fst (snd (resourceAzureGenericResourceCreateUpdate e2 d2 w2)) \<noteq> d2" by auto
    then have "\<exists>w1 requestBody r2.
         check_existing e2 d2 w2 (NewResourceID (url d2) (api_version d2)) = Inr w1
       \<and> compose_requestBody e2 d2 = Inr requestBody
       \<and> resourceAzureGenericResourceCreateUpdate e2 d2 w2 =
           resourceAzureGenericResourceRead e2
             (d2\<lparr>d_Id := ID (id_separator e2) (NewResourceID (url d2) (api_version d2))\<rparr>)
             \<lparr>remote = r2,
              calls = calls w1 @
                [(CreateUpdateCall (url d2) (api_version d2) requestBody
                    (if IsNewResource d2 then create_method d2 else update_method d2), None)]\<rparr>"
      using create_update_outcomes [of e2 d2 w2] by simp
    then obtain w1 requestBody r2 where
      chk: "check_existing e2 d2 w2 (NewResourceID (url d2) (api_version d2)) = Inr w1" and
      cmp: "compose_requestBody e2 d2 = Inr requestBody" and
      run: "resourceAzureGenericResourceCreateUpdate e2 d2 w2 =
              resourceAzureGenericResourceRead e2
                (d2\<lparr>d_Id := ID (id_separator e2) (NewResourceID (url d2) (api_version d2))\<rparr>)
                \<lparr>remote = r2,
                 calls = calls w1 @
                   [(CreateUpdateCall (url d2) (api_version d2) requestBody
                       (if IsNewResource d2 then create_method d2 else update_method d2), None)]\<rparr>"
      by blast
    let ?c = "(CreateUpdateCall (url d2) (api_version d2) requestBody
                 (if IsNewResource d2 then create_method d2 else update_method d2),
               None :: string option)"
    let ?after = "calls (snd (snd (resourceAzureGenericResourceCreateUpdate e2 d2 w2)))"
    obtain zs1 where z1: "calls w1 = calls w2 @ zs1"
      using check_existing_calls [OF chk] by (auto simp: prefix_def)
    have "prefix (calls w1 @ [?c]) ?after"
      using read_calls [of "\<lparr>remote = r2, calls = calls w1 @ [?c]\<rparr>" e2] run by simp
    then obtain zs2 where z2: "?after = (calls w1 @ [?c]) @ zs2"
      by (auto simp: prefix_def)
    have "drop (length (calls w2)) ?after = zs1 @ [?c] @ zs2"
      using z1 z2 by simp
    then have "?c \<in> set (drop (length (calls w2)) ?after)" by simp
    then show "\<exists>requestBody m.
               (CreateUpdateCall (url d2) (api_version d2) requestBody m, None)
                 \<in> set (drop (length (calls w2)) ?after)"
      by blast
  qed
  show ?thesis using same only_after by simp
qed

theorem id_unchanged_on_failure_witness:
  "fst (resourceAzureGenericResourceCreateUpdate example_env
          (example_data\<lparr>body := ''not json''\<rparr>) \<lparr>remote = example_remote, calls = []\<rparr>)
     = Some JsonSyntaxError
   \<and> d_Id (fst (snd (resourceAzureGenericResourceCreateUpdate example_env
          (example_data\<lparr>body := ''not json''\<rparr>) \<lparr>remote = example_remote, calls = []\<rparr>)))
     = ''/subscriptions/s1/providers/p%20q?2020-06-01''
   \<and> d_Id (fst (snd (resourceAzureGenericResourceCreateUpdate example_env
          (example_data\<lparr>IsNewResource := True, d_Id := []\<rparr>) \<lparr>remote = JNull, calls = []\<rparr>)))
     \<noteq> d_Id (example_data\<lparr>IsNewResource := True, d_Id := []\<rparr>)
   \<and> (\<exists>requestBody m.
         (CreateUpdateCall (url (example_data\<lparr>IsNewResource := True, d_Id := []\<rparr>))
            (api_version (example_data\<lparr>IsNewResource := True, d_Id := []\<rparr>)) requestBody m, None)
           \<in> set (drop (length (calls \<lparr>remote = JNull, calls = []\<rparr>))
                (calls (snd (snd (resourceAzureGenericResourceCreateUpdate example_env
                   (example_data\<lparr>IsNewResource := True, d_Id := []\<rparr>)
                   \<lparr>remote = JNull, calls = []\<rparr>))))))"
proof -
  let ?bad = "example_data\<lparr>body := ''not json''\<rparr>"
  let ?w = "\<lparr>remote = example_remote, calls = []\<rparr>"
  let ?new = "example_data\<lparr>IsNewResource := True, d_Id := []\<rparr>"
  let ?absent = "\<lparr>remote = JNull, calls = []\<rparr> :: json world"
  have fail: "resourceAzureGenericResourceCreateUpdate example_env ?bad ?w
                = (Some JsonSyntaxError, ?bad, ?w)"
    by (simp add: resourceAzureGenericResourceCreateUpdate_def check_existing_def
        compose_requestBody_def example_env_def example_data_def example_docs_def Let_def)
  have h1: "fst (resourceAzureGenericResourceCreateUpdate example_env ?bad ?w)
              = Some JsonSyntaxError"
    by (simp add: fail)
  have h2: "(\<exists>rid x. JsonSyntaxError = Errorf ''checking for presence of existing'' rid x)
       \<or> (\<exists>n i. JsonSyntaxError = ImportAsExistsError n i)
       \<or> JsonSyntaxError = JsonSyntaxError
       \<or> (\<exists>msg. JsonSyntaxError = ExpandIdentityError msg)
       \<or> (\<exists>rid x. JsonSyntaxError = Errorf ''creating/updating'' rid x)"
    by simp
  have created: "d_Id (fst (snd (resourceAzureGenericResourceCreateUpdate example_env ?new ?absent)))
                   = ''/subscriptions/s1/providers/p%20q?2020-06-01''"
    by (simp add: resourceAzureGenericResourceCreateUpdate_def check_existing_def
        compose_requestBody_def resourceAzureGenericResourceRead_def read_requestBody_def
        do_Get_def do_CreateUpdate_def ResourceID_def ID_def NewResourceID_def
        example_env_def example_data_def example_docs_def example_GetId_def Let_def)
  have h3: "d_Id (fst (snd (resourceAzureGenericResourceCreateUpdate example_env ?new ?absent)))
              \<noteq> d_Id ?new"
    using created by simp
  have old: "d_Id ?bad = ''/subscriptions/s1/providers/p%20q?2020-06-01''"
    by (simp add: example_data_def)
  show ?thesis
    using h1 h3 old
      id_unchanged_on_failure [OF h1 h2, where ?e2.0 = example_env and ?d2.0 = "?new"
        and ?w2.0 = "?absent"]
    by simp
qed

section \<open>Not found on read and on delete\<close>

lemma read_not_found:
  assumes "ResourceID (id_separator e) (d_Id d) = Inr rid"
    and "client_Get e (remote w) (Url rid) (ApiVersion rid) = ((responseBody, 404, Some x), r')"
  shows "resourceAzureGenericResourceRead e d w =
     (None, d\<lparr>d_Id := []\<rparr>,
      \<lparr>remote = r', calls = calls w @ [(GetCall (Url rid) (ApiVersion rid), Some x)]\<rparr>)"
  using assms by (simp add: resourceAzureGenericResourceRead_def do_Get_def)

lemma read_remote_error:
  assumes "ResourceID (id_separator e) (d_Id d) = Inr rid"
    and "client_Get e (remote w) (Url rid) (ApiVersion rid) = ((responseBody, status, Some x), r')"
    and "status \<noteq> 404"
  shows "resourceAzureGenericResourceRead e d w =
     (Some (Errorf ''reading'' rid x), d,
      \<lparr>remote = r', calls = calls w @ [(GetCall (Url rid) (ApiVersion rid), Some x)]\<rparr>)"
  using assms by (simp add: resourceAzureGenericResourceRead_def do_Get_def)

lemma delete_remote_error:
  assumes "ResourceID (id_separator e) (d_Id d) = Inr rid"
    and "client_Delete e (remote w) (Url rid) (ApiVersion rid) = ((responseBody, status, Some x), r')"
  shows "resourceAzureGenericResourceDelete e d w =
     (Some (Errorf ''deleting'' rid x), d,
      \<lparr>remote = r', calls = calls w @ [(DeleteCall (Url rid) (ApiVersion rid), Some x)]\<rparr>)"
  using assms by (simp add: resourceAzureGenericResourceDelete_def do_Delete_def)

text \<open>
  C4. Against a remote that holds no object, where Get and Delete both answer 404 with
  an error: the read handler recovers, it clears the stored identifier and returns no
  error; the delete handler does not, it returns the error of the remote Delete as the
  error of deleting the identifier. Line 249 discards the response, so the status is
  never looked at; by \<open>delete_remote_error\<close> the same holds for every status.
\<close>

theorem delete_not_found_is_error:
  "resourceAzureGenericResourceRead example_env example_data \<lparr>remote = JNull, calls = []\<rparr>
     = (None, example_data\<lparr>d_Id := []\<rparr>,
        \<lparr>remote = JNull,
         calls = [(GetCall ''/subscriptions/s1/providers/p%20q'' ''2020-06-01'',
                   Some ''not found'')]\<rparr>)
   \<and> resourceAzureGenericResourceDelete example_env example_data \<lparr>remote = JNull, calls = []\<rparr>
     = (Some (Errorf ''deleting'' example_id ''not found''), example_data,
        \<lparr>remote = JNull,
         calls = [(DeleteCall ''/subscriptions/s1/providers/p%20q'' ''2020-06-01'',
                   Some ''not found'')]\<rparr>)"
proof -
  have rid: "ResourceID (id_separator example_env) (d_Id example_data) = Inr example_id"
    by (simp add: example_env_def example_data_def example_id_def ResourceID_def)
  have g: "client_Get example_env (remote \<lparr>remote = JNull, calls = []\<rparr>)
             (Url example_id) (ApiVersion example_id) = ((JNull, 404, Some ''not found''), JNull)"
    by (simp add: example_env_def)
  have dl: "client_Delete example_env (remote \<lparr>remote = JNull, calls = []\<rparr>)
             (Url example_id) (ApiVersion example_id) = ((JNull, 404, Some ''not found''), JNull)"
    by (simp add: example_env_def)
  show ?thesis
    using read_not_found [OF rid g] delete_remote_error [OF rid dl]
    by (simp add: example_id_def)
qed

end
